theory Spec2Isabelle
  imports Main "HOL-Library.Word"
begin

section \<open>Requests, responses and schema validation\<close>

text \<open>
  Instants are milliseconds since the epoch, as the value of a JavaScript \<open>Date\<close>.
  A handler's reads of the clock (\<open>new Date()\<close>) are taken to return one instant
  \<open>now\<close>, passed as an argument.
\<close>

type_synonym instant = int

text \<open>
  A value of a parsed JSON body or of a query string. \<open>JUndefined\<close> is what reading
  an absent key gives. Arrays and objects are one constructor: the handlers only test them
  for truthiness and the schemas reject them.
\<close>

datatype json = JUndefined | JNull | JBool bool | JNum int | JStr string | JObject

text \<open>\<open>req.body\<close> and \<open>req.query\<close>: \<open>req.body.k\<close> is \<open>body ''k''\<close>.\<close>

type_synonym jobj = "string \<Rightarrow> json"

definition no_keys :: jobj where
  "no_keys = (\<lambda>k. JUndefined)"

text \<open>JavaScript truthiness, as used by \<open>&&\<close>, \<open>!\<close> and \<open>? :\<close>.\<close>

fun truthy :: "json \<Rightarrow> bool" where
  "truthy JUndefined = False"
| "truthy JNull = False"
| "truthy (JBool b) = b"
| "truthy (JNum n) = (n \<noteq> 0)"
| "truthy (JStr s) = (s \<noteq> [])"
| "truthy JObject = True"

text \<open>
  The zod schemas of \<open>utils/validation.ts\<close>. A parser returns \<open>None\<close> where zod
  raises a \<open>ZodError\<close>.
\<close>

fun z_string :: "json \<Rightarrow> string option" where
  "z_string (JStr s) = Some s"
| "z_string _ = None"

fun z_string_min1 :: "json \<Rightarrow> string option" where
  "z_string_min1 (JStr s) = (if s = [] then None else Some s)"
| "z_string_min1 _ = None"

fun z_enum :: "string list \<Rightarrow> json \<Rightarrow> string option" where
  "z_enum vs (JStr s) = (if s \<in> set vs then Some s else None)"
| "z_enum vs _ = None"

text \<open>
  \<open>z.string().datetime()\<close> followed by \<open>new Date(...)\<close>. The ISO-8601 syntax that
  zod accepts and the instant the string denotes belong to the libraries; they are the
  parameter \<open>parseIso\<close>: \<open>parseIso s = None\<close> when zod rejects \<open>s\<close>, and \<open>parseIso s = Some t\<close>
  when it accepts \<open>s\<close> and \<open>new Date(s)\<close> is the instant \<open>t\<close>. The empty string is
  no datetime, so a parsed datetime field is always truthy.
\<close>

type_synonym iso_parser = "string \<Rightarrow> instant option"

fun z_datetime :: "iso_parser \<Rightarrow> json \<Rightarrow> instant option" where
  "z_datetime parseIso (JStr s) = (if s = [] then None else parseIso s)"
| "z_datetime parseIso _ = None"

fun z_optional :: "(json \<Rightarrow> 'a option) \<Rightarrow> json \<Rightarrow> 'a option option" where
  "z_optional p JUndefined = Some None"
| "z_optional p j = map_option Some (p j)"

definition activityTypes :: "string list" where
  "activityTypes =
    [''DOCTOR_APPOINTMENT'', ''CALL'', ''MEETING'', ''GYM'', ''GROCERY_RUN'',
     ''STUDY_SESSION'', ''PAY_BILLS'', ''CAR_MAINTENANCE'', ''DENTIST_APPOINTMENT'',
     ''HAIRCUT'', ''WORKOUT'', ''LUNCH_MEETING'', ''TEAM_STANDUP'', ''CLIENT_CALL'',
     ''PERSONAL_TIME'', ''OTHER'']"

definition completionOutcomes :: "string list" where
  "completionOutcomes =
    [''COMPLETED_OK'', ''NO_SHOW'', ''DID_NOT_ANSWER'', ''CANCELLED'', ''FAILED'']"

section \<open>Activities\<close>

text \<open>
  A row of the \<open>Activity\<close> table. The columns \<open>createdAt\<close> and \<open>updatedAt\<close> are
  maintained by the ORM and read by no handler; they are left out.
\<close>

record activity =
  actId :: string
  userId :: string
  title :: "string option"
  notes_col :: "string option"
  activityType :: string
  scheduledAt :: "instant option"
  recordedAt :: "instant option"
  completionOutcome :: "string option"
  deletedAt :: "instant option"
  deletedReason :: "string option"

record stats =
  total_count :: nat
  open_count :: nat
  completed_count :: nat

datatype body =
    ErrorBody string
  | ZodErrorBody
  | ErrorRemaining string int
  | MessageBody string
  | ActivityBody activity
  | DeletedBody string activity
  | ListBody "activity list" stats
  | LoginBody string string string string "string option" "string option"

text \<open>
  An HTTP response: the status code and the JSON body. \<open>LoginBody\<close> carries the access
  token, the refresh token and the user's id, email, first and last name.
\<close>

type_synonym response = "nat \<times> body"

text \<open>
  The catch block of every handler: a \<open>ZodError\<close> answers 400 with the first issue's
  message (the text is zod's), anything else answers 500.
\<close>

definition zod_error :: response where
  "zod_error = (400, ZodErrorBody)"

definition internal_error :: response where
  "internal_error = (500, ErrorBody ''Internal server error'')"

subsection \<open>GET /activities\<close>

text \<open>
  \<open>getActivitiesSchema\<close>: the parsed \<open>includeDeleted\<close>, \<open>from\<close> and \<open>to\<close>
  (\<open>view\<close> is validated and not used).
\<close>

definition getActivitiesSchema ::
  "iso_parser \<Rightarrow> jobj \<Rightarrow> (string option \<times> instant option \<times> instant option) option" where
  "getActivitiesSchema parseIso q =
    (case z_optional (z_enum [''true'', ''false'']) (q ''includeDeleted'') of
       None \<Rightarrow> None
     | Some incl \<Rightarrow>
        (case z_optional (z_enum [''list'', ''calendar'']) (q ''view'') of
           None \<Rightarrow> None
         | Some view \<Rightarrow>
            (case z_optional (z_datetime parseIso) (q ''from'') of
               None \<Rightarrow> None
             | Some from \<Rightarrow>
                (case z_optional (z_datetime parseIso) (q ''to'') of
                   None \<Rightarrow> None
                 | Some to \<Rightarrow> Some (incl, from, to)))))"

text \<open>
  A Prisma date filter \<open>{gte: from, lte: to}\<close> with either bound optional; a null column
  matches no comparison.
\<close>

definition in_range :: "instant option \<Rightarrow> instant option \<Rightarrow> instant option \<Rightarrow> bool" where
  "in_range from to col =
    (case col of
       None \<Rightarrow> False
     | Some t \<Rightarrow> (case from of None \<Rightarrow> True | Some f \<Rightarrow> f \<le> t)
              \<and> (case to of None \<Rightarrow> True | Some u \<Rightarrow> t \<le> u))"

definition matches_where ::
  "string \<Rightarrow> bool \<Rightarrow> instant option \<Rightarrow> instant option \<Rightarrow> activity \<Rightarrow> bool" where
  "matches_where uid includeDeleted from to a =
    (userId a = uid
     \<and> (includeDeleted \<or> deletedAt a = None)
     \<and> (if from \<noteq> None \<or> to \<noteq> None
        then in_range from to (scheduledAt a) \<or> in_range from to (recordedAt a)
        else True))"

text \<open>The summary of lines 58 to 67 of the route.\<close>

definition compute_stats :: "activity list \<Rightarrow> stats" where
  "compute_stats activities =
    (let scheduled = filter (\<lambda>a. scheduledAt a \<noteq> None \<and> recordedAt a = None) activities;
         recorded = filter (\<lambda>a. recordedAt a \<noteq> None) activities
     in \<lparr> total_count = length (filter (\<lambda>a. deletedAt a = None) activities),
          open_count = length (filter (\<lambda>a. deletedAt a = None) scheduled),
          completed_count = length (filter (\<lambda>a. deletedAt a = None) recorded) \<rparr>)"

text \<open>
  The handler. \<open>orderBy\<close> is the order in which the store returns the selected rows
  (\<open>scheduledAt\<close> ascending, then \<open>recordedAt\<close> descending, with the store's placement
  of nulls and ties); it is a parameter.
\<close>

definition get_activities ::
  "iso_parser \<Rightarrow> (activity list \<Rightarrow> activity list) \<Rightarrow> string \<Rightarrow> jobj \<Rightarrow> activity list \<Rightarrow> response" where
  "get_activities parseIso orderBy uid q tbl =
    (case getActivitiesSchema parseIso q of
       None \<Rightarrow> zod_error
     | Some (incl, from, to) \<Rightarrow>
        (let includeDeleted = (incl = Some ''true'');
             activities = orderBy (filter (matches_where uid includeDeleted from to) tbl)
         in (200, ListBody activities (compute_stats activities))))"

subsection \<open>Reading and writing the table\<close>

text \<open>\<open>prisma.activity.findFirst({ where: { id, userId } })\<close>.\<close>

definition findFirst :: "string \<Rightarrow> string \<Rightarrow> activity list \<Rightarrow> activity option" where
  "findFirst i uid tbl = find (\<lambda>a. actId a = i \<and> userId a = uid) tbl"

text \<open>
  \<open>prisma.activity.update({ where: { id }, data })\<close>: \<open>id\<close> is the primary key, the
  row that carries it is rewritten. The handlers call it only after \<open>findFirst\<close> has
  found the row.
\<close>

definition update_where_id ::
  "string \<Rightarrow> (activity \<Rightarrow> activity) \<Rightarrow> activity list \<Rightarrow> activity list" where
  "update_where_id i f tbl = map (\<lambda>a. if actId a = i then f a else a) tbl"

text \<open>
  \<open>prisma.activity.create\<close>: the ORM supplies the new primary key; the store refuses a
  key that is already there, and the handler then answers 500.
\<close>

definition create_row :: "activity \<Rightarrow> activity list \<Rightarrow> activity list option" where
  "create_row a tbl = (if actId a \<in> set (map actId tbl) then None else Some (tbl @ [a]))"

subsection \<open>POST /activities\<close>

definition createScheduledActivitySchema ::
  "iso_parser \<Rightarrow> jobj \<Rightarrow> (string \<times> string option \<times> string \<times> instant) option" where
  "createScheduledActivitySchema parseIso b =
    (case z_string_min1 (b ''title'') of
       None \<Rightarrow> None
     | Some t \<Rightarrow>
        (case z_optional z_string (b ''notes'') of
           None \<Rightarrow> None
         | Some n \<Rightarrow>
            (case z_enum activityTypes (b ''activityType'') of
               None \<Rightarrow> None
             | Some ty \<Rightarrow>
                (case z_datetime parseIso (b ''scheduledAt'') of
                   None \<Rightarrow> None
                 | Some d \<Rightarrow> Some (t, n, ty, d)))))"

definition createRecordedActivitySchema ::
  "iso_parser \<Rightarrow> jobj \<Rightarrow> (string \<times> instant \<times> string \<times> string option) option" where
  "createRecordedActivitySchema parseIso b =
    (case z_enum activityTypes (b ''activityType'') of
       None \<Rightarrow> None
     | Some ty \<Rightarrow>
        (case z_datetime parseIso (b ''recordedAt'') of
           None \<Rightarrow> None
         | Some d \<Rightarrow>
            (case z_enum completionOutcomes (b ''completionOutcome'') of
               None \<Rightarrow> None
             | Some oc \<Rightarrow>
                (case z_optional z_string (b ''notes'') of
                   None \<Rightarrow> None
                 | Some n \<Rightarrow> Some (ty, d, oc, n)))))"

definition post_activities ::
  "iso_parser \<Rightarrow> instant \<Rightarrow> string \<Rightarrow> string \<Rightarrow> jobj \<Rightarrow> activity list
    \<Rightarrow> response \<times> activity list" where
  "post_activities parseIso now newId uid b tbl =
    (let isScheduled = (truthy (b ''scheduledAt'') \<and> \<not> truthy (b ''recordedAt''));
         isRecorded = truthy (b ''recordedAt'')
     in if isScheduled then
          (case createScheduledActivitySchema parseIso b of
             None \<Rightarrow> (zod_error, tbl)
           | Some (t, n, ty, scheduledDate) \<Rightarrow>
              if scheduledDate \<le> now
              then ((400, ErrorBody ''Scheduled activities must be in the future''), tbl)
              else
                (let a = \<lparr> actId = newId, userId = uid, title = Some t, notes_col = n,
                              activityType = ty, scheduledAt = Some scheduledDate,
                              recordedAt = None, completionOutcome = None,
                              deletedAt = None, deletedReason = None \<rparr>
                 in case create_row a tbl of
                      None \<Rightarrow> (internal_error, tbl)
                    | Some tbl' \<Rightarrow> ((201, ActivityBody a), tbl')))
        else if isRecorded then
          (case createRecordedActivitySchema parseIso b of
             None \<Rightarrow> (zod_error, tbl)
           | Some (ty, recordedDate, oc, n) \<Rightarrow>
              if recordedDate \<ge> now
              then ((400, ErrorBody ''Recorded activities must be in the past''), tbl)
              else
                (let a = \<lparr> actId = newId, userId = uid, title = None, notes_col = n,
                              activityType = ty, scheduledAt = None,
                              recordedAt = Some recordedDate, completionOutcome = Some oc,
                              deletedAt = None, deletedReason = None \<rparr>
                 in case create_row a tbl of
                      None \<Rightarrow> (internal_error, tbl)
                    | Some tbl' \<Rightarrow> ((201, ActivityBody a), tbl')))
        else ((400, ErrorBody ''Activity must be either scheduled or recorded''), tbl))"

subsection \<open>PATCH /activities/:id\<close>

definition updateActivitySchema ::
  "iso_parser \<Rightarrow> jobj \<Rightarrow> (string option \<times> string option \<times> instant option) option" where
  "updateActivitySchema parseIso b =
    (case z_optional z_string_min1 (b ''title'') of
       None \<Rightarrow> None
     | Some t \<Rightarrow>
        (case z_optional z_string (b ''notes'') of
           None \<Rightarrow> None
         | Some n \<Rightarrow>
            (case z_optional (z_datetime parseIso) (b ''scheduledAt'') of
               None \<Rightarrow> None
             | Some d \<Rightarrow> Some (t, n, d))))"

text \<open>A field of \<open>data\<close> that is \<open>undefined\<close> leaves its column as it is.\<close>

definition set_if_given :: "'a option \<Rightarrow> 'a option \<Rightarrow> 'a option" where
  "set_if_given new old = (case new of None \<Rightarrow> old | Some v \<Rightarrow> Some v)"

definition patch_activity ::
  "iso_parser \<Rightarrow> instant \<Rightarrow> string \<Rightarrow> string \<Rightarrow> jobj \<Rightarrow> activity list
    \<Rightarrow> response \<times> activity list" where
  "patch_activity parseIso now i uid b tbl =
    (case updateActivitySchema parseIso b of
       None \<Rightarrow> (zod_error, tbl)
     | Some (t, n, d) \<Rightarrow>
        (case findFirst i uid tbl of
           None \<Rightarrow> ((404, ErrorBody ''Activity not found''), tbl)
         | Some activity \<Rightarrow>
            if (case d of None \<Rightarrow> False | Some newScheduledDate \<Rightarrow> newScheduledDate \<le> now)
            then ((400, ErrorBody ''Scheduled date must be in the future''), tbl)
            else
              (let data = (\<lambda>a. a\<lparr> title := set_if_given t (title a),
                                    notes_col := set_if_given n (notes_col a),
                                    scheduledAt := set_if_given d (scheduledAt a) \<rparr>)
               in ((200, ActivityBody (data activity)), update_where_id i data tbl))))"

subsection \<open>POST /activities/:id/complete\<close>

definition completeActivitySchema :: "iso_parser \<Rightarrow> jobj \<Rightarrow> (instant \<times> string) option" where
  "completeActivitySchema parseIso b =
    (case z_datetime parseIso (b ''completionDate'') of
       None \<Rightarrow> None
     | Some d \<Rightarrow>
        (case z_enum completionOutcomes (b ''completionOutcome'') of
           None \<Rightarrow> None
         | Some oc \<Rightarrow> Some (d, oc)))"

definition complete_activity ::
  "iso_parser \<Rightarrow> instant \<Rightarrow> string \<Rightarrow> string \<Rightarrow> jobj \<Rightarrow> activity list
    \<Rightarrow> response \<times> activity list" where
  "complete_activity parseIso now i uid b tbl =
    (case completeActivitySchema parseIso b of
       None \<Rightarrow> (zod_error, tbl)
     | Some (completionDate, oc) \<Rightarrow>
        (case findFirst i uid tbl of
           None \<Rightarrow> ((404, ErrorBody ''Activity not found''), tbl)
         | Some activity \<Rightarrow>
            if scheduledAt activity = None
            then ((400, ErrorBody ''Only scheduled activities can be completed''), tbl)
            else if completionDate \<ge> now
            then ((400, ErrorBody ''Completion date must be in the past''), tbl)
            else
              (let data = (\<lambda>a. a\<lparr> recordedAt := Some completionDate,
                                    completionOutcome := Some oc \<rparr>)
               in ((200, ActivityBody (data activity)), update_where_id i data tbl))))"

subsection \<open>DELETE /activities/:id\<close>

definition deleteActivitySchema :: "jobj \<Rightarrow> string option" where
  "deleteActivitySchema b = z_string_min1 (b ''reason'')"

definition delete_activity ::
  "instant \<Rightarrow> string \<Rightarrow> string \<Rightarrow> jobj \<Rightarrow> activity list \<Rightarrow> response \<times> activity list" where
  "delete_activity now i uid b tbl =
    (case deleteActivitySchema b of
       None \<Rightarrow> (zod_error, tbl)
     | Some reason \<Rightarrow>
        (case findFirst i uid tbl of
           None \<Rightarrow> ((404, ErrorBody ''Activity not found''), tbl)
         | Some activity \<Rightarrow>
            (let data = (\<lambda>a. a\<lparr> deletedAt := Some now, deletedReason := Some reason \<rparr>)
             in ((200, DeletedBody ''Activity deleted successfully'' (data activity)),
                 update_where_id i data tbl))))"

subsection \<open>Rows with a date\<close>

text \<open>A row that has \<open>scheduledAt\<close> or \<open>recordedAt\<close> set.\<close>

definition dated :: "activity \<Rightarrow> bool" where
  "dated a = (scheduledAt a \<noteq> None \<or> recordedAt a \<noteq> None)"

section \<open>Authentication\<close>

datatype userStatus = ACTIVE | BLOCKED | WAITING_EMAIL_CONFIRMATION | SUSPENDED

datatype emailTokenType = CONFIRM_EMAIL | RESET_PASSWORD

text \<open>
  Rows of the \<open>User\<close>, \<open>EmailToken\<close> and \<open>RefreshToken\<close> tables (without
  \<open>createdAt\<close> and \<open>updatedAt\<close>). \<open>failedLoginAttempts\<close> is a 32-bit column that
  the handlers move between 0 and 10 only; it is an \<open>int\<close> here.
\<close>

record user =
  usrId :: string
  email :: string
  passwordHash :: string
  firstName :: "string option"
  lastName :: "string option"
  status :: userStatus
  failedLoginAttempts :: int
  lastLoginAt :: "instant option"

record emailToken =
  tokId :: string
  tokUserId :: string
  tokType :: emailTokenType
  tokenHash :: string
  expiresAt :: instant
  usedAt :: "instant option"

record refreshToken =
  rtId :: string
  rtUserId :: string
  rtTokenHash :: string
  rtExpiresAt :: instant
  revokedAt :: "instant option"

text \<open>A message handed to the email service: recipient, subject and link.\<close>

type_synonym mail = "string \<times> string \<times> string"

record db =
  users :: "user list"
  emailTokens :: "emailToken list"
  refreshTokens :: "refreshToken list"
  outbox :: "mail list"

text \<open>
  What the handlers call in libraries: \<open>bcrypt.compare\<close>, the SHA-256 digest of
  \<open>hashToken\<close>, \<open>jwt.sign\<close> (which reads the clock for the expiry) and zod's email
  syntax. They are parameters of the model.
\<close>

record env =
  comparePassword :: "string \<Rightarrow> string \<Rightarrow> bool"
  hashToken :: "string \<Rightarrow> string"
  generateAccessToken :: "instant \<Rightarrow> string \<Rightarrow> string \<Rightarrow> string"
  generateRefreshToken :: "instant \<Rightarrow> string \<Rightarrow> string \<Rightarrow> string"
  isEmail :: "string \<Rightarrow> bool"

fun z_email :: "(string \<Rightarrow> bool) \<Rightarrow> json \<Rightarrow> string option" where
  "z_email ok (JStr s) = (if ok s then Some s else None)"
| "z_email ok _ = None"

subsection \<open>Reading and writing the tables\<close>

text \<open>\<open>prisma.user.findUnique({ where: { email } })\<close>.\<close>

definition findUser :: "string \<Rightarrow> db \<Rightarrow> user option" where
  "findUser e d = find (\<lambda>u. email u = e) (users d)"

text \<open>\<open>prisma.emailToken.findUnique({ where: { tokenHash } })\<close>.\<close>

definition findEmailToken :: "string \<Rightarrow> db \<Rightarrow> emailToken option" where
  "findEmailToken h d = find (\<lambda>t. tokenHash t = h) (emailTokens d)"

text \<open>
  \<open>prisma.user.update\<close> and \<open>prisma.emailToken.update\<close> by primary key. The store
  raises when no row carries the key: the result is \<open>None\<close>.
\<close>

definition user_update :: "string \<Rightarrow> (user \<Rightarrow> user) \<Rightarrow> db \<Rightarrow> db option" where
  "user_update i f d =
    (if i \<in> set (map usrId (users d))
     then Some (d\<lparr> users := map (\<lambda>u. if usrId u = i then f u else u) (users d) \<rparr>)
     else None)"

definition emailToken_update :: "string \<Rightarrow> (emailToken \<Rightarrow> emailToken) \<Rightarrow> db \<Rightarrow> db option" where
  "emailToken_update i f d =
    (if i \<in> set (map tokId (emailTokens d))
     then Some (d\<lparr> emailTokens := map (\<lambda>t. if tokId t = i then f t else t) (emailTokens d) \<rparr>)
     else None)"

text \<open>
  \<open>prisma.emailToken.create\<close> and \<open>prisma.refreshToken.create\<close>: the primary key
  and the token hash are unique columns, and the store raises on a value that is already
  there.
\<close>

definition emailToken_create :: "emailToken \<Rightarrow> db \<Rightarrow> db option" where
  "emailToken_create t d =
    (if tokId t \<in> set (map tokId (emailTokens d))
        \<or> tokenHash t \<in> set (map tokenHash (emailTokens d))
     then None
     else Some (d\<lparr> emailTokens := emailTokens d @ [t] \<rparr>))"

definition refreshToken_create :: "refreshToken \<Rightarrow> db \<Rightarrow> db option" where
  "refreshToken_create t d =
    (if rtId t \<in> set (map rtId (refreshTokens d))
        \<or> rtTokenHash t \<in> set (map rtTokenHash (refreshTokens d))
     then None
     else Some (d\<lparr> refreshTokens := refreshTokens d @ [t] \<rparr>))"

text \<open>
  \<open>prisma.$transaction([w1, w2, ...])\<close>: the writes run in order; when one raises,
  none is kept.
\<close>

fun transaction :: "(db \<Rightarrow> db option) list \<Rightarrow> db \<Rightarrow> db option" where
  "transaction [] d = Some d"
| "transaction (w # ws) d = (case w d of None \<Rightarrow> None | Some d' \<Rightarrow> transaction ws d')"

subsection \<open>POST /auth/confirm-email\<close>

definition confirmEmailSchema :: "jobj \<Rightarrow> string option" where
  "confirmEmailSchema b = z_string_min1 (b ''token'')"

definition confirm_email :: "env \<Rightarrow> instant \<Rightarrow> jobj \<Rightarrow> db \<Rightarrow> response \<times> db" where
  "confirm_email ev now b d =
    (case confirmEmailSchema b of
       None \<Rightarrow> (zod_error, d)
     | Some token \<Rightarrow>
        (case findEmailToken (hashToken ev token) d of
           None \<Rightarrow> ((400, ErrorBody ''Invalid or expired token''), d)
         | Some emailToken \<Rightarrow>
            if usedAt emailToken \<noteq> None
            then ((400, ErrorBody ''Token already used''), d)
            else if expiresAt emailToken < now
            then ((400, ErrorBody ''Token expired''), d)
            else if tokType emailToken \<noteq> CONFIRM_EMAIL
            then ((400, ErrorBody ''Invalid token type''), d)
            else
              (case transaction
                      [user_update (tokUserId emailToken) (\<lambda>u. u\<lparr> status := ACTIVE \<rparr>),
                       emailToken_update (tokId emailToken) (\<lambda>t. t\<lparr> usedAt := Some now \<rparr>)] d of
                 None \<Rightarrow> (internal_error, d)
               | Some d' \<Rightarrow>
                  ((200, MessageBody ''Email confirmed successfully. You can now login.''), d'))))"

text \<open>The store after both writes of the transaction, for the token \<open>t\<close>.\<close>

definition confirmed :: "emailToken \<Rightarrow> instant \<Rightarrow> db \<Rightarrow> db" where
  "confirmed t now d =
    d\<lparr> users := map (\<lambda>u. if usrId u = tokUserId t then u\<lparr> status := ACTIVE \<rparr> else u) (users d),
       emailTokens := map (\<lambda>r. if tokId r = tokId t then r\<lparr> usedAt := Some now \<rparr> else r)
                        (emailTokens d) \<rparr>"

subsection \<open>POST /auth/login\<close>

text \<open>
  The handler runs behind the route's rate limiter (10 requests per 15 minutes and
  address), which answers 429 by itself; the model is the handler, for a request that the
  limiter lets through. \<open>newId\<close> is the primary key the ORM gives the new
  \<open>RefreshToken\<close> row.
\<close>

definition loginSchema :: "env \<Rightarrow> jobj \<Rightarrow> (string \<times> string) option" where
  "loginSchema ev b =
    (case z_email (isEmail ev) (b ''email'') of
       None \<Rightarrow> None
     | Some e \<Rightarrow>
        (case z_string_min1 (b ''password'') of
           None \<Rightarrow> None
         | Some p \<Rightarrow> Some (e, p)))"

text \<open>The two single-row updates of the handler; the row was read just before.\<close>

definition update_user_row :: "string \<Rightarrow> (user \<Rightarrow> user) \<Rightarrow> db \<Rightarrow> db" where
  "update_user_row i f d = d\<lparr> users := map (\<lambda>u. if usrId u = i then f u else u) (users d) \<rparr>"

definition login :: "env \<Rightarrow> instant \<Rightarrow> string \<Rightarrow> jobj \<Rightarrow> db \<Rightarrow> response \<times> db" where
  "login ev now newId b d =
    (case loginSchema ev b of
       None \<Rightarrow> (zod_error, d)
     | Some (e, p) \<Rightarrow>
        (case findUser e d of
           None \<Rightarrow> ((401, ErrorBody ''Invalid credentials''), d)
         | Some user \<Rightarrow>
            if status user = BLOCKED
            then ((403, ErrorBody ''Account is blocked due to too many failed login attempts''), d)
            else if status user = WAITING_EMAIL_CONFIRMATION
            then ((403, ErrorBody ''Please confirm your email before logging in''), d)
            else if \<not> comparePassword ev p (passwordHash user)
            then
              (let data = (\<lambda>u. u\<lparr> failedLoginAttempts := failedLoginAttempts user + 1,
                                    status := (if failedLoginAttempts user + 1 \<ge> 10
                                               then BLOCKED else status user) \<rparr>);
                   updatedUser = data user;
                   d1 = update_user_row (usrId user) data d
               in if status updatedUser = BLOCKED
                  then ((403, ErrorBody ''Account blocked due to too many failed login attempts''), d1)
                  else ((401, ErrorRemaining ''Invalid credentials''
                                (10 - failedLoginAttempts updatedUser)), d1))
            else
              (let d1 = update_user_row (usrId user)
                          (\<lambda>u. u\<lparr> failedLoginAttempts := 0, lastLoginAt := Some now \<rparr>) d;
                   accessToken = generateAccessToken ev now (usrId user) (email user);
                   refreshToken = generateRefreshToken ev now (usrId user) (email user);
                   refreshTokenHash = hashToken ev refreshToken
               in case refreshToken_create
                         \<lparr> rtId = newId, rtUserId = usrId user, rtTokenHash = refreshTokenHash,
                           rtExpiresAt = now + 7 * 24 * 60 * 60 * 1000, revokedAt = None \<rparr> d1 of
                    None \<Rightarrow> (internal_error, d1)
                  | Some d2 \<Rightarrow>
                     ((200, LoginBody accessToken refreshToken (usrId user) (email user)
                              (firstName user) (lastName user)), d2))))"

text \<open>The row \<open>u\<close> as the handler rewrites it after a wrong password.\<close>

definition bump :: "user \<Rightarrow> user" where
  "bump u = u\<lparr> failedLoginAttempts := failedLoginAttempts u + 1,
               status := (if failedLoginAttempts u + 1 \<ge> 10 then BLOCKED else status u) \<rparr>"

text \<open>A run of login requests, each with its instant, new key and body.\<close>

fun login_attempts :: "env \<Rightarrow> (instant \<times> string \<times> jobj) list \<Rightarrow> db \<Rightarrow> db" where
  "login_attempts ev [] d = d"
| "login_attempts ev ((now, newId, b) # rs) d = login_attempts ev rs (snd (login ev now newId b d))"

text \<open>
  A failed attempt on the account \<open>e\<close> whose stored hash is \<open>h\<close>: a request that
  passes the schema, names \<open>e\<close> and carries a password that does not match.
\<close>

definition failed_attempt :: "env \<Rightarrow> string \<Rightarrow> string \<Rightarrow> instant \<times> string \<times> jobj \<Rightarrow> bool" where
  "failed_attempt ev e h r =
    (case r of (now, newId, b) \<Rightarrow>
      (case loginSchema ev b of
         None \<Rightarrow> False
       | Some (e', p) \<Rightarrow> e' = e \<and> \<not> comparePassword ev p h))"

subsection \<open>POST /auth/forgot-password\<close>

text \<open>
  \<open>token\<close> is the value drawn by \<open>generateRandomToken\<close>, \<open>newId\<close> the key of the new
  \<open>EmailToken\<close> row. \<open>sendPasswordReset\<close> hands the message to the email service,
  which catches a failed delivery and logs instead: it never raises.
\<close>

definition forgotPasswordSchema :: "env \<Rightarrow> jobj \<Rightarrow> string option" where
  "forgotPasswordSchema ev b = z_email (isEmail ev) (b ''email'')"

definition sendPasswordReset :: "string \<Rightarrow> string \<Rightarrow> db \<Rightarrow> db" where
  "sendPasswordReset to token d =
    d\<lparr> outbox := outbox d @
          [(to, ''Reset your Schedula password'',
            ''http://localhost:5173/reset-password?token='' @ token)] \<rparr>"

definition forgot_password ::
  "env \<Rightarrow> instant \<Rightarrow> string \<Rightarrow> string \<Rightarrow> jobj \<Rightarrow> db \<Rightarrow> response \<times> db" where
  "forgot_password ev now newId token b d =
    (case forgotPasswordSchema ev b of
       None \<Rightarrow> (zod_error, d)
     | Some e \<Rightarrow>
        (case findUser e d of
           None \<Rightarrow> ((200, MessageBody ''If the email exists, a reset link has been sent.''), d)
         | Some user \<Rightarrow>
            (case emailToken_create
                    \<lparr> tokId = newId, tokUserId = usrId user, tokType = RESET_PASSWORD,
                      tokenHash = hashToken ev token, expiresAt = now + 60 * 60 * 1000,
                      usedAt = None \<rparr> d of
               None \<Rightarrow> (internal_error, d)
             | Some d1 \<Rightarrow>
                ((200, MessageBody ''If the email exists, a reset link has been sent.''),
                 sendPasswordReset (email user) token d1))))"

section \<open>Password strength\<close>

text \<open>
  A JavaScript string is a sequence of UTF-16 code units, and \<open>password.length\<close>
  counts them. \<open>code c\<close> is the code unit of an ASCII character.
\<close>

type_synonym js_string = "16 word list"

definition code :: "char \<Rightarrow> 16 word" where
  "code c = of_char c"

definition js :: "string \<Rightarrow> js_string" where
  "js s = map code s"

text \<open>The three character classes of the regular expressions.\<close>

definition isLetter :: "16 word \<Rightarrow> bool" where
  "isLetter u = ((code CHR ''a'' \<le> u \<and> u \<le> code CHR ''z'')
               \<or> (code CHR ''A'' \<le> u \<and> u \<le> code CHR ''Z''))"

definition isNumber :: "16 word \<Rightarrow> bool" where
  "isNumber u = (code CHR ''0'' \<le> u \<and> u \<le> code CHR ''9'')"

definition symbols :: "char list" where
  "symbols =
    [CHR ''!'', CHR ''@'', CHR ''#'', CHR ''$'', CHR ''%'', CHR ''^'', CHR ''&'', CHR ''*'',
     CHR ''('', CHR '')'', CHR ''_'', CHR ''+'', CHR ''-'', CHR ''='', CHR ''['', CHR '']'',
     CHR ''{'', CHR ''}'', CHR '';'', CHR 0x27, CHR '':'', CHR 0x22, CHR 0x5C, CHR ''|'',
     CHR '','', CHR ''.'', CHR ''<'', CHR ''>'', CHR ''/'', CHR ''?'']"

definition isSymbol :: "16 word \<Rightarrow> bool" where
  "isSymbol u = (u \<in> set (map code symbols))"

text \<open>\<open>/[class]/.test(password)\<close>: some code unit of the string is in the class.\<close>

definition regex_test :: "(16 word \<Rightarrow> bool) \<Rightarrow> js_string \<Rightarrow> bool" where
  "regex_test cls password = list_ex cls password"

record validation =
  valid :: bool
  error :: "string option"

definition validatePasswordStrength :: "js_string \<Rightarrow> validation" where
  "validatePasswordStrength password =
    (if length password < 8
     then \<lparr> valid = False, error = Some ''Password must be at least 8 characters long'' \<rparr>
     else
      (let hasLetter = regex_test isLetter password;
           hasNumber = regex_test isNumber password;
           hasSymbol = regex_test isSymbol password
       in if \<not> hasLetter
          then \<lparr> valid = False, error = Some ''Password must include at least one letter'' \<rparr>
          else if \<not> hasNumber
          then \<lparr> valid = False, error = Some ''Password must include at least one number'' \<rparr>
          else if \<not> hasSymbol
          then \<lparr> valid = False, error = Some ''Password must include at least one symbol'' \<rparr>
          else \<lparr> valid = True, error = None \<rparr>))"

subsection \<open>The rule as the specification words it\<close>

text \<open>
  The specification asks for a length of at least 8 and at least one letter, one digit and
  one symbol of the punctuation set, and for the message of the first rule that fails, in
  the order length, letter, digit, symbol. The letters and digits are written out; the
  punctuation set is \<open>symbols\<close>.
\<close>

definition letters :: string where
  "letters = ''abcdefghijklmnopqrstuvwxyzABCDEFGHIJKLMNOPQRSTUVWXYZ''"

definition digits :: string where
  "digits = ''0123456789''"

definition contains_one_of :: "string \<Rightarrow> js_string \<Rightarrow> bool" where
  "contains_one_of cs p = (\<exists>c\<in>set cs. code c \<in> set p)"

definition strength_rules :: "js_string \<Rightarrow> (bool \<times> string) list" where
  "strength_rules p =
    [(8 \<le> length p, ''Password must be at least 8 characters long''),
     (contains_one_of letters p, ''Password must include at least one letter''),
     (contains_one_of digits p, ''Password must include at least one number''),
     (contains_one_of symbols p, ''Password must include at least one symbol'')]"

definition first_failing_rule :: "js_string \<Rightarrow> string option" where
  "first_failing_rule p = map_option snd (find (\<lambda>r. \<not> fst r) (strength_rules p))"

section \<open>Sample data\<close>

text \<open>
  Concrete inputs for the instances below: a datetime parser that knows three ISO strings,
  an instant in November 2023 as the present, and a few rows.
\<close>

definition sample_iso :: iso_parser where
  "sample_iso = map_of
    [(''2020-01-01T00:00:00.000Z'', 1577836800000),
     (''2021-01-01T00:00:00.000Z'', 1609459200000),
     (''2030-01-01T00:00:00.000Z'', 1893456000000)]"

definition sample_now :: instant where
  "sample_now = 1700000000000"

definition dentist :: activity where
  "dentist = \<lparr> actId = ''a1'', userId = ''u1'', title = Some ''Dentist'', notes_col = None,
      activityType = ''DENTIST_APPOINTMENT'', scheduledAt = Some 1600000000000,
      recordedAt = None, completionOutcome = None, deletedAt = None, deletedReason = None \<rparr>"

definition dentist_done :: activity where
  "dentist_done =
    dentist\<lparr> recordedAt := Some 1577836800000, completionOutcome := Some ''COMPLETED_OK'' \<rparr>"

definition dentist_deleted :: activity where
  "dentist_deleted =
    dentist\<lparr> deletedAt := Some 1650000000000, deletedReason := Some ''Cancelled by user'' \<rparr>"

definition first_completion :: jobj where
  "first_completion = no_keys(''completionDate'' := JStr ''2020-01-01T00:00:00.000Z'',
                            ''completionOutcome'' := JStr ''COMPLETED_OK'')"

definition second_completion :: jobj where
  "second_completion = no_keys(''completionDate'' := JStr ''2021-01-01T00:00:00.000Z'',
                             ''completionOutcome'' := JStr ''FAILED'')"

definition both_dates :: jobj where
  "both_dates = no_keys(''scheduledAt'' := JStr ''2030-01-01T00:00:00.000Z'',
                      ''recordedAt'' := JStr ''2020-01-01T00:00:00.000Z'',
                      ''title'' := JStr ''Call Bob'',
                      ''activityType'' := JStr ''CALL'',
                      ''completionOutcome'' := JStr ''NO_SHOW'')"

definition call_bob :: activity where
  "call_bob = \<lparr> actId = ''a2'', userId = ''u1'', title = None, notes_col = None,
      activityType = ''CALL'', scheduledAt = None, recordedAt = Some 1577836800000,
      completionOutcome = Some ''NO_SHOW'', deletedAt = None, deletedReason = None \<rparr>"

text \<open>
  Stand-ins for the libraries, four users and two email tokens. The stand-in for bcrypt
  accepts the password \<open>pw\<close> for the hash \<open>hash:pw\<close>.
\<close>

definition sample_env :: env where
  "sample_env = \<lparr> comparePassword = (\<lambda>p h. h = ''hash:'' @ p),
                  hashToken = (\<lambda>t. ''sha:'' @ t),
                  generateAccessToken = (\<lambda>now uid e. ''access:'' @ uid),
                  generateRefreshToken = (\<lambda>now uid e. ''refresh:'' @ uid),
                  isEmail = (\<lambda>s. CHR ''@'' \<in> set s) \<rparr>"

definition alice :: user where
  "alice = \<lparr> usrId = ''u1'', email = ''alice@x.com'', passwordHash = ''hash:Abc12345!'',
             firstName = Some ''Alice'', lastName = None, status = ACTIVE,
             failedLoginAttempts = 0, lastLoginAt = None \<rparr>"

definition sam :: user where
  "sam = \<lparr> usrId = ''u2'', email = ''sam@x.com'', passwordHash = ''hash:Abc12345!'',
           firstName = None, lastName = None, status = SUSPENDED,
           failedLoginAttempts = 0, lastLoginAt = None \<rparr>"

definition wendy :: user where
  "wendy = \<lparr> usrId = ''u3'', email = ''wendy@x.com'', passwordHash = ''hash:Abc12345!'',
             firstName = None, lastName = None, status = WAITING_EMAIL_CONFIRMATION,
             failedLoginAttempts = 0, lastLoginAt = None \<rparr>"

definition bob :: user where
  "bob = \<lparr> usrId = ''u4'', email = ''bob@x.com'', passwordHash = ''hash:Abc12345!'',
           firstName = None, lastName = None, status = BLOCKED,
           failedLoginAttempts = 10, lastLoginAt = None \<rparr>"

definition wendy_token :: emailToken where
  "wendy_token = \<lparr> tokId = ''t1'', tokUserId = ''u3'', tokType = CONFIRM_EMAIL,
                   tokenHash = ''sha:tok-wendy'', expiresAt = 1700003600000, usedAt = None \<rparr>"

definition stale_token :: emailToken where
  "stale_token = \<lparr> tokId = ''t2'', tokUserId = ''u3'', tokType = CONFIRM_EMAIL,
                   tokenHash = ''sha:tok-stale'', expiresAt = 1600000000000, usedAt = None \<rparr>"

definition sample_db :: db where
  "sample_db = \<lparr> users = [alice, sam, wendy, bob], emailTokens = [wendy_token, stale_token],
                 refreshTokens = [], outbox = [] \<rparr>"

definition credentials :: "string \<Rightarrow> string \<Rightarrow> jobj" where
  "credentials e p = no_keys(''email'' := JStr e, ''password'' := JStr p)"

definition ten_wrong :: "(instant \<times> string \<times> jobj) list" where
  "ten_wrong = replicate 10 (sample_now, ''r0'', credentials ''alice@x.com'' ''guess'')"

section \<open>Properties of the activity routes\<close>

subsection \<open>Rows after an update\<close>

lemma find_map_preserved:
  assumes "\<And>x. P (g x) = P x"
  shows "find P (map g xs) = map_option g (find P xs)"
  using assms by (induction xs) auto

lemma findFirst_update_where_id:
  assumes "\<And>a. actId (f a) = actId a" and "\<And>a. userId (f a) = userId a"
  shows "findFirst i uid (update_where_id j f tbl) =
         map_option (\<lambda>a. if actId a = j then f a else a) (findFirst i uid tbl)"
  unfolding findFirst_def update_where_id_def
  by (rule find_map_preserved) (simp add: assms)

lemma findFirst_keys:
  "findFirst i uid tbl = Some a \<Longrightarrow> actId a = i \<and> userId a = uid"
  unfolding findFirst_def by (auto simp: find_Some_iff)

subsection \<open>PATCH on a recorded activity\<close>

text \<open>
  A PATCH without a new date on a row of the caller is answered 200, whatever the row's
  \<open>recordedAt\<close>.
\<close>

lemma patch_activity_found:
  assumes "updateActivitySchema parseIso b = Some (t, n, None)"
    and "findFirst i uid tbl = Some a"
  shows "patch_activity parseIso now i uid b tbl
     = ((200, ActivityBody (a\<lparr> title := set_if_given t (title a),
                                notes_col := set_if_given n (notes_col a) \<rparr>)),
        update_where_id i (\<lambda>r. r\<lparr> title := set_if_given t (title r),
                                   notes_col := set_if_given n (notes_col r) \<rparr>) tbl)"
  using assms by (simp add: patch_activity_def set_if_given_def)

text \<open>
  Claim C1: a PATCH on an activity of the caller whose \<open>recordedAt\<close> is set always fails
  and leaves the row as it is. The handler has no test of \<open>recordedAt\<close>: on the completed
  activity \<open>dentist_done\<close>, a PATCH of the title by its owner answers 200 and rewrites the
  title, while the edit dialog of the same repository tells the user that a completed
  activity cannot be edited and sends no request for one.
\<close>

theorem patch_recorded_activity_succeeds:
  "recordedAt dentist_done \<noteq> None
   \<and> userId dentist_done = ''u1''
   \<and> patch_activity sample_iso sample_now ''a1'' ''u1'' (no_keys(''title'' := JStr ''Changed''))
        [dentist_done]
     = ((200, ActivityBody (dentist_done\<lparr> title := Some ''Changed'' \<rparr>)),
        [dentist_done\<lparr> title := Some ''Changed'' \<rparr>])"
  by (simp add: patch_activity_def updateActivitySchema_def findFirst_def update_where_id_def
      set_if_given_def no_keys_def dentist_done_def dentist_def)

subsection \<open>Completing an activity twice\<close>

text \<open>
  A completion with a past date on a row of the caller that has \<open>scheduledAt\<close> is
  answered 200 and writes both columns, whatever the row's \<open>recordedAt\<close>.
\<close>

lemma complete_activity_found:
  assumes "completeActivitySchema parseIso b = Some (completionDate, oc)"
    and "findFirst i uid tbl = Some a"
    and "scheduledAt a \<noteq> None"
    and "completionDate < now"
  shows "complete_activity parseIso now i uid b tbl
     = ((200, ActivityBody (a\<lparr> recordedAt := Some completionDate, completionOutcome := Some oc \<rparr>)),
        update_where_id i (\<lambda>r. r\<lparr> recordedAt := Some completionDate,
                                   completionOutcome := Some oc \<rparr>) tbl)"
  using assms by (auto simp: complete_activity_def)

text \<open>
  Claim C2: complete succeeds only on an activity with \<open>scheduledAt\<close> set and
  \<open>recordedAt\<close> unset, so that a completion is never changed by a later one. The handler
  tests \<open>scheduledAt\<close> only, and a completed activity keeps its \<open>scheduledAt\<close>: after the
  first completion of \<open>dentist\<close>, a second one with another date and outcome answers 200
  and replaces \<open>recordedAt\<close> and \<open>completionOutcome\<close>.
\<close>

theorem complete_twice_overwrites:
  "complete_activity sample_iso sample_now ''a1'' ''u1'' first_completion [dentist]
     = ((200, ActivityBody dentist_done), [dentist_done])
   \<and> recordedAt dentist_done = Some 1577836800000
   \<and> completionOutcome dentist_done = Some ''COMPLETED_OK''
   \<and> complete_activity sample_iso sample_now ''a1'' ''u1'' second_completion [dentist_done]
     = ((200, ActivityBody (dentist_done\<lparr> recordedAt := Some 1609459200000,
                                            completionOutcome := Some ''FAILED'' \<rparr>)),
        [dentist_done\<lparr> recordedAt := Some 1609459200000,
                       completionOutcome := Some ''FAILED'' \<rparr>])"
  by (simp add: complete_activity_def completeActivitySchema_def findFirst_def
      update_where_id_def first_completion_def second_completion_def completionOutcomes_def
      sample_iso_def sample_now_def no_keys_def dentist_done_def dentist_def)

subsection \<open>Creating with both dates or with neither\<close>

text \<open>
  Claim C3, as stated: a create request whose body has both \<open>scheduledAt\<close> and
  \<open>recordedAt\<close> fails with 400 and creates nothing. It does not: \<open>isScheduled\<close> is false
  as soon as \<open>recordedAt\<close> is there, the request takes the recorded branch, and the
  recorded schema drops the \<open>scheduledAt\<close> key. The body \<open>both_dates\<close> answers 201 and
  adds the row \<open>call_bob\<close>.
\<close>

theorem create_with_both_dates_counterexample:
  "both_dates ''scheduledAt'' \<noteq> JUndefined
   \<and> both_dates ''recordedAt'' \<noteq> JUndefined
   \<and> post_activities sample_iso sample_now ''a2'' ''u1'' both_dates [dentist]
       = ((201, ActivityBody call_bob), [dentist, call_bob])"
  by (simp add: post_activities_def createRecordedActivitySchema_def create_row_def Let_def
      both_dates_def call_bob_def activityTypes_def completionOutcomes_def sample_iso_def
      sample_now_def no_keys_def dentist_def)

lemma recorded_schema_ignores_scheduledAt:
  "createRecordedActivitySchema parseIso (b(''scheduledAt'' := v))
     = createRecordedActivitySchema parseIso b"
  by (simp add: createRecordedActivitySchema_def cong: option.case_cong)

text \<open>
  Claim C3, amended. A body with neither a truthy \<open>scheduledAt\<close> nor a truthy
  \<open>recordedAt\<close> (both absent, in particular) is answered 400 with
  \<open>Activity must be either scheduled or recorded\<close> and the table is unchanged. A body
  with a truthy \<open>recordedAt\<close> is handled as the creation of a recorded activity, whatever
  \<open>scheduledAt\<close> holds: the answer and the table are those of the same body without
  \<open>scheduledAt\<close>, and when the answer is 201 the new row has \<open>recordedAt\<close> and
  \<open>completionOutcome\<close> set and \<open>scheduledAt\<close> unset.
\<close>

theorem create_neither_or_both:
  "(\<not> truthy (b ''scheduledAt'') \<and> \<not> truthy (b ''recordedAt'')
      \<longrightarrow> post_activities parseIso now newId uid b tbl
           = ((400, ErrorBody ''Activity must be either scheduled or recorded''), tbl))
   \<and> (truthy (b ''recordedAt'')
      \<longrightarrow> post_activities parseIso now newId uid b tbl
           = post_activities parseIso now newId uid (b(''scheduledAt'' := JUndefined)) tbl)
   \<and> (truthy (b ''recordedAt'')
        \<and> post_activities parseIso now newId uid b tbl = ((201, ActivityBody a), tbl')
      \<longrightarrow> tbl' = tbl @ [a] \<and> scheduledAt a = None \<and> recordedAt a \<noteq> None
          \<and> completionOutcome a \<noteq> None)"
  by (auto simp: post_activities_def recorded_schema_ignores_scheduledAt create_row_def
      zod_error_def internal_error_def Let_def split: option.splits prod.splits if_splits)

theorem create_neither_or_both_witness:
  "(\<not> truthy (no_keys ''scheduledAt'') \<and> \<not> truthy (no_keys ''recordedAt'')
     \<and> post_activities sample_iso sample_now ''a2'' ''u1'' no_keys [dentist]
           = ((400, ErrorBody ''Activity must be either scheduled or recorded''), [dentist]))
   \<and> (truthy (both_dates ''recordedAt'')
     \<and> post_activities sample_iso sample_now ''a2'' ''u1'' both_dates [dentist]
           = post_activities sample_iso sample_now ''a2'' ''u1''
               (both_dates(''scheduledAt'' := JUndefined)) [dentist])"
  using create_neither_or_both [of no_keys sample_iso sample_now "''a2''" "''u1''" "[dentist]"]
        create_neither_or_both [of both_dates sample_iso sample_now "''a2''" "''u1''" "[dentist]"]
  by (simp add: no_keys_def both_dates_def)

subsection \<open>The summary of a listing\<close>

text \<open>
  Every row that the routes create has one of the two dates, and no route takes a date
  away: a table of dated rows stays one.
\<close>

lemma update_where_id_dated:
  assumes "list_all dated tbl" and "\<And>a. dated a \<Longrightarrow> dated (f a)"
  shows "list_all dated (update_where_id i f tbl)"
  using assms by (auto simp: update_where_id_def list_all_iff)

lemma handlers_keep_rows_dated:
  assumes "list_all dated tbl"
  shows "list_all dated (snd (post_activities parseIso now newId uid b tbl))"
    and "list_all dated (snd (patch_activity parseIso now i uid b tbl))"
    and "list_all dated (snd (complete_activity parseIso now i uid b tbl))"
    and "list_all dated (snd (delete_activity now i uid b tbl))"
proof -
  show "list_all dated (snd (post_activities parseIso now newId uid b tbl))"
    using assms
    by (auto simp: post_activities_def create_row_def dated_def Let_def
        split: option.splits prod.splits if_splits)
  show "list_all dated (snd (patch_activity parseIso now i uid b tbl))"
    using assms
    by (auto simp: patch_activity_def Let_def dated_def set_if_given_def
        intro!: update_where_id_dated split: option.splits prod.splits)
  show "list_all dated (snd (complete_activity parseIso now i uid b tbl))"
    using assms
    by (auto simp: complete_activity_def Let_def dated_def
        intro!: update_where_id_dated split: option.splits prod.splits)
  show "list_all dated (snd (delete_activity now i uid b tbl))"
    using assms
    by (auto simp: delete_activity_def Let_def dated_def
        intro!: update_where_id_dated split: option.splits prod.splits)
qed

lemma compute_stats_partition:
  assumes "\<forall>a\<in>set acts. scheduledAt a \<noteq> None \<or> recordedAt a \<noteq> None"
  shows "total_count (compute_stats acts)
           = open_count (compute_stats acts) + completed_count (compute_stats acts)"
  using assms by (induction acts) (auto simp: compute_stats_def Let_def)

lemma sample_listing:
  "get_activities sample_iso (\<lambda>rows. rows) ''u1'' no_keys [dentist, dentist_done, dentist_deleted]
     = (200, ListBody [dentist, dentist_done]
               \<lparr> total_count = 2, open_count = 1, completed_count = 1 \<rparr>)"
  by (simp add: get_activities_def getActivitiesSchema_def no_keys_def matches_where_def
      compute_stats_def dentist_def dentist_done_def dentist_deleted_def)

text \<open>
  Claim C9: when every activity of a GET /activities response has \<open>scheduledAt\<close> or
  \<open>recordedAt\<close> set, the summary satisfies total = open + completed, where total counts
  the returned activities that are not deleted, open those of them with \<open>scheduledAt\<close>
  and no \<open>recordedAt\<close>, and completed those of them with \<open>recordedAt\<close>. This holds for
  every query, every table and every order in which the store returns the rows.
\<close>

theorem stats_total_is_open_plus_completed:
  assumes "get_activities parseIso orderBy uid q tbl = (sc, ListBody acts st)"
    and "\<forall>a\<in>set acts. scheduledAt a \<noteq> None \<or> recordedAt a \<noteq> None"
  shows "total_count st = open_count st + completed_count st
    \<and> total_count st = length (filter (\<lambda>a. deletedAt a = None) acts)
    \<and> open_count st = length (filter (\<lambda>a. deletedAt a = None \<and> scheduledAt a \<noteq> None
                                          \<and> recordedAt a = None) acts)
    \<and> completed_count st = length (filter (\<lambda>a. deletedAt a = None \<and> recordedAt a \<noteq> None) acts)"
proof -
  from assms(1) have st: "st = compute_stats acts"
    by (auto simp: get_activities_def zod_error_def Let_def split: option.splits prod.splits)
  have "total_count st = open_count st + completed_count st"
    unfolding st by (rule compute_stats_partition [OF assms(2)])
  moreover have "total_count st = length (filter (\<lambda>a. deletedAt a = None) acts)"
    unfolding st by (simp add: compute_stats_def Let_def)
  moreover have "open_count st = length (filter (\<lambda>a. deletedAt a = None \<and> scheduledAt a \<noteq> None
                                          \<and> recordedAt a = None) acts)"
    unfolding st by (simp add: compute_stats_def Let_def conj_ac)
  moreover have "completed_count st
      = length (filter (\<lambda>a. deletedAt a = None \<and> recordedAt a \<noteq> None) acts)"
    unfolding st by (simp add: compute_stats_def Let_def conj_ac)
  ultimately show ?thesis by simp
qed

theorem stats_total_is_open_plus_completed_witness:
  "get_activities sample_iso (\<lambda>rows. rows) ''u1'' no_keys [dentist, dentist_done, dentist_deleted]
     = (200, ListBody [dentist, dentist_done]
               \<lparr> total_count = 2, open_count = 1, completed_count = 1 \<rparr>)
   \<and> list_all (\<lambda>a. scheduledAt a \<noteq> None \<or> recordedAt a \<noteq> None) [dentist, dentist_done]
   \<and> total_count \<lparr> total_count = 2, open_count = 1, completed_count = 1 \<rparr>
       = open_count \<lparr> total_count = 2, open_count = 1, completed_count = 1 \<rparr>
       + completed_count \<lparr> total_count = 2, open_count = 1, completed_count = 1 \<rparr>"
proof -
  have h: "\<forall>a\<in>set [dentist, dentist_done]. scheduledAt a \<noteq> None \<or> recordedAt a \<noteq> None"
    by (simp add: dentist_def dentist_done_def)
  from stats_total_is_open_plus_completed [OF sample_listing h] sample_listing h
  show ?thesis by (simp add: dentist_def dentist_done_def)
qed

subsection \<open>Deleting a deleted activity\<close>

text \<open>
  Claim C10: DELETE on an activity of the caller that is already soft-deleted, with a
  non-empty reason, answers 200 again and stores the current instant as \<open>deletedAt\<close> and
  the new reason as \<open>deletedReason\<close>; the stored row changes whenever the instant or the
  reason differs from what was stored, so the operation is repeatable without error and
  not idempotent.
\<close>

theorem delete_again_overwrites:
  assumes "findFirst i uid tbl = Some a"
    and "deletedAt a = Some t0"
    and "b ''reason'' = JStr r"
    and "r \<noteq> []"
  shows "fst (delete_activity now i uid b tbl)
           = (200, DeletedBody ''Activity deleted successfully''
                     (a\<lparr> deletedAt := Some now, deletedReason := Some r \<rparr>))
    \<and> findFirst i uid (snd (delete_activity now i uid b tbl))
           = Some (a\<lparr> deletedAt := Some now, deletedReason := Some r \<rparr>)
    \<and> (now \<noteq> t0 \<or> deletedReason a \<noteq> Some r
         \<longrightarrow> findFirst i uid (snd (delete_activity now i uid b tbl)) \<noteq> Some a)"
proof -
  let ?data = "\<lambda>a. a\<lparr> deletedAt := Some now, deletedReason := Some r \<rparr>"
  have run: "delete_activity now i uid b tbl
      = ((200, DeletedBody ''Activity deleted successfully'' (?data a)),
         update_where_id i ?data tbl)"
    using assms by (simp add: delete_activity_def deleteActivitySchema_def)
  have key: "actId a = i"
    using findFirst_keys [OF assms(1)] by simp
  have stored: "findFirst i uid (update_where_id i ?data tbl) = Some (?data a)"
    by (simp add: findFirst_update_where_id assms(1) key)
  have changed: "now \<noteq> t0 \<or> deletedReason a \<noteq> Some r \<Longrightarrow> ?data a \<noteq> a"
  proof
    assume c: "now \<noteq> t0 \<or> deletedReason a \<noteq> Some r" and e: "?data a = a"
    from e have "deletedAt (?data a) = deletedAt a" "deletedReason (?data a) = deletedReason a"
      by simp_all
    with assms(2) c show False by simp
  qed
  show ?thesis using run stored changed by simp
qed

theorem delete_again_overwrites_witness:
  "findFirst ''a1'' ''u1'' [dentist_deleted] = Some dentist_deleted
   \<and> deletedAt dentist_deleted = Some 1650000000000
   \<and> fst (delete_activity sample_now ''a1'' ''u1'' (no_keys(''reason'' := JStr ''again''))
            [dentist_deleted])
       = (200, DeletedBody ''Activity deleted successfully''
           (dentist_deleted\<lparr> deletedAt := Some sample_now, deletedReason := Some ''again'' \<rparr>))
   \<and> findFirst ''a1'' ''u1''
        (snd (delete_activity sample_now ''a1'' ''u1'' (no_keys(''reason'' := JStr ''again''))
               [dentist_deleted]))
       \<noteq> Some dentist_deleted"
proof -
  have f: "findFirst ''a1'' ''u1'' [dentist_deleted] = Some dentist_deleted"
    by (simp add: findFirst_def dentist_deleted_def dentist_def)
  have d: "deletedAt dentist_deleted = Some 1650000000000"
    by (simp add: dentist_deleted_def)
  have r: "(no_keys(''reason'' := JStr ''again'')) ''reason'' = JStr ''again''"
    by simp
  have n: "''again'' \<noteq> []"
    by simp
  have c: "sample_now \<noteq> (1650000000000::int)"
    by (simp add: sample_now_def)
  from delete_again_overwrites [where i = "''a1''" and uid = "''u1''"
      and tbl = "[dentist_deleted]" and a = dentist_deleted and ?t0.0 = 1650000000000
      and r = "''again''" and now = sample_now
      and b = "no_keys(''reason'' := JStr ''again'')", OF f d r n] c f d
  show ?thesis by blast
qed

section \<open>Properties of the authentication routes\<close>

subsection \<open>The sample store\<close>

lemma sample_schema:
  "loginSchema sample_env (credentials e p) = (if CHR ''@'' \<in> set e \<and> p \<noteq> [] then Some (e, p) else None)"
  by (simp add: loginSchema_def credentials_def no_keys_def sample_env_def)

lemma sample_users:
  "findUser ''alice@x.com'' sample_db = Some alice"
  "findUser ''wendy@x.com'' sample_db = Some wendy"
  "findUser ''bob@x.com'' sample_db = Some bob"
  "findUser ''nobody@x.com'' sample_db = None"
  by (simp_all add: findUser_def sample_db_def alice_def sam_def wendy_def bob_def)

lemma sample_tokens:
  "findEmailToken (hashToken sample_env ''tok-wendy'') sample_db = Some wendy_token"
  "findEmailToken (hashToken sample_env ''tok-stale'') sample_db = Some stale_token"
  by (simp_all add: findEmailToken_def sample_env_def sample_db_def wendy_token_def stale_token_def)

subsection \<open>Email confirmation\<close>

lemma findEmailToken_mem: "findEmailToken h d = Some t \<Longrightarrow> t \<in> set (emailTokens d)"
  unfolding findEmailToken_def by (auto simp: find_Some_iff)

lemma confirm_transaction:
  assumes "findEmailToken h d = Some t"
  shows "transaction
           [user_update (tokUserId t) (\<lambda>u. u\<lparr> status := ACTIVE \<rparr>),
            emailToken_update (tokId t) (\<lambda>r. r\<lparr> usedAt := Some now \<rparr>)] d
         = (if tokUserId t \<in> set (map usrId (users d)) then Some (confirmed t now d) else None)"
  using findEmailToken_mem [OF assms]
  by (simp add: user_update_def emailToken_update_def confirmed_def)

text \<open>
  Claim C6: for a request that carries a token (a non-empty string), confirm-email answers
  \<open>Invalid or expired token\<close> when no row has the hash of the token, then
  \<open>Token already used\<close> when \<open>usedAt\<close> is set, then \<open>Token expired\<close> when
  \<open>expiresAt\<close> is before the present, then \<open>Invalid token type\<close> when the type is not
  \<open>CONFIRM_EMAIL\<close>, in that order and each with status 400; otherwise the user's status
  becomes \<open>ACTIVE\<close> and the token's \<open>usedAt\<close> the present, both in one transaction:
  the store is then \<open>confirmed t now d\<close>, or, when the transaction fails, the answer is
  500 and the store is untouched. Whenever the answer is not 200 the store is unchanged.
\<close>

theorem confirm_email_checks:
  "(b ''token'' = JStr tok \<and> tok \<noteq> [] \<and> findEmailToken (hashToken ev tok) d = None
      \<longrightarrow> confirm_email ev now b d = ((400, ErrorBody ''Invalid or expired token''), d))
   \<and> (b ''token'' = JStr tok \<and> tok \<noteq> [] \<and> findEmailToken (hashToken ev tok) d = Some t
      \<longrightarrow> confirm_email ev now b d =
           (if usedAt t \<noteq> None then ((400, ErrorBody ''Token already used''), d)
            else if expiresAt t < now then ((400, ErrorBody ''Token expired''), d)
            else if tokType t \<noteq> CONFIRM_EMAIL then ((400, ErrorBody ''Invalid token type''), d)
            else if tokUserId t \<in> set (map usrId (users d))
            then ((200, MessageBody ''Email confirmed successfully. You can now login.''),
                  confirmed t now d)
            else (internal_error, d)))
   \<and> (fst (fst (confirm_email ev now b d)) \<noteq> 200 \<longrightarrow> snd (confirm_email ev now b d) = d)"
proof (intro conjI impI)
  assume "b ''token'' = JStr tok \<and> tok \<noteq> [] \<and> findEmailToken (hashToken ev tok) d = None"
  then show "confirm_email ev now b d = ((400, ErrorBody ''Invalid or expired token''), d)"
    by (simp add: confirm_email_def confirmEmailSchema_def)
next
  assume a: "b ''token'' = JStr tok \<and> tok \<noteq> [] \<and> findEmailToken (hashToken ev tok) d = Some t"
  then have f: "findEmailToken (hashToken ev tok) d = Some t" by simp
  show "confirm_email ev now b d =
           (if usedAt t \<noteq> None then ((400, ErrorBody ''Token already used''), d)
            else if expiresAt t < now then ((400, ErrorBody ''Token expired''), d)
            else if tokType t \<noteq> CONFIRM_EMAIL then ((400, ErrorBody ''Invalid token type''), d)
            else if tokUserId t \<in> set (map usrId (users d))
            then ((200, MessageBody ''Email confirmed successfully. You can now login.''),
                  confirmed t now d)
            else (internal_error, d))"
    using a by (simp add: confirm_email_def confirmEmailSchema_def confirm_transaction [OF f]
        del: transaction.simps)
next
  assume "fst (fst (confirm_email ev now b d)) \<noteq> 200"
  then show "snd (confirm_email ev now b d) = d"
    by (auto simp: confirm_email_def zod_error_def internal_error_def
        split: option.splits if_splits)
qed

theorem confirm_email_checks_witness:
  "confirm_email sample_env sample_now (no_keys(''token'' := JStr ''tok-wendy'')) sample_db
     = ((200, MessageBody ''Email confirmed successfully. You can now login.''),
        sample_db\<lparr> users := [alice, sam, wendy\<lparr> status := ACTIVE \<rparr>, bob],
                   emailTokens := [wendy_token\<lparr> usedAt := Some sample_now \<rparr>, stale_token] \<rparr>)
   \<and> confirm_email sample_env sample_now (no_keys(''token'' := JStr ''tok-stale'')) sample_db
     = ((400, ErrorBody ''Token expired''), sample_db)"
proof -
  have c: "confirmed wendy_token sample_now sample_db
      = sample_db\<lparr> users := [alice, sam, wendy\<lparr> status := ACTIVE \<rparr>, bob],
                   emailTokens := [wendy_token\<lparr> usedAt := Some sample_now \<rparr>, stale_token] \<rparr>"
    by (simp add: confirmed_def sample_db_def alice_def sam_def wendy_def bob_def
        wendy_token_def stale_token_def)
  have u: "tokUserId wendy_token \<in> set (map usrId (users sample_db))"
    by (simp add: sample_db_def wendy_token_def wendy_def)
  have w: "usedAt wendy_token = None" "\<not> expiresAt wendy_token < sample_now"
          "tokType wendy_token = CONFIRM_EMAIL"
    by (simp_all add: wendy_token_def sample_now_def)
  have x: "usedAt stale_token = None" "expiresAt stale_token < sample_now"
    by (simp_all add: stale_token_def sample_now_def)
  from confirm_email_checks [where b = "no_keys(''token'' := JStr ''tok-wendy'')"
      and tok = "''tok-wendy''" and ev = sample_env and d = sample_db and t = wendy_token
      and now = sample_now]
    confirm_email_checks [where b = "no_keys(''token'' := JStr ''tok-stale'')"
      and tok = "''tok-stale''" and ev = sample_env and d = sample_db and t = stale_token
      and now = sample_now]
    sample_tokens c u w x
  show ?thesis by simp
qed

subsection \<open>Who can log in\<close>

lemma findUser_update_user_row:
  assumes "\<And>r. email (f r) = email r"
  shows "findUser e (update_user_row i f d)
         = map_option (\<lambda>r. if usrId r = i then f r else r) (findUser e d)"
  unfolding findUser_def update_user_row_def
  by (simp add: find_map_preserved assms)

text \<open>
  Claim C4, as stated: a user in any status other than \<open>ACTIVE\<close>, \<open>SUSPENDED\<close>
  included, is rejected before tokens are issued even with the right password. The handler
  tests for \<open>BLOCKED\<close> and \<open>WAITING_EMAIL_CONFIRMATION\<close> only: the suspended user
  \<open>sam\<close> logs in with the right password, is answered 200 with both tokens, and a
  refresh token row is stored.
\<close>

theorem suspended_user_logs_in_counterexample:
  "status sam = SUSPENDED
   \<and> findUser ''sam@x.com'' sample_db = Some sam
   \<and> comparePassword sample_env ''Abc12345!'' (passwordHash sam)
   \<and> fst (login sample_env sample_now ''r1'' (credentials ''sam@x.com'' ''Abc12345!'') sample_db)
       = (200, LoginBody ''access:u2'' ''refresh:u2'' ''u2'' ''sam@x.com'' None None)
   \<and> refreshTokens (snd (login sample_env sample_now ''r1''
                            (credentials ''sam@x.com'' ''Abc12345!'') sample_db))
       = [\<lparr> rtId = ''r1'', rtUserId = ''u2'', rtTokenHash = ''sha:refresh:u2'',
            rtExpiresAt = 1700604800000, revokedAt = None \<rparr>]"
  by (simp add: login_def loginSchema_def findUser_def credentials_def no_keys_def
      sample_env_def sample_db_def sample_now_def sam_def alice_def wendy_def bob_def
      update_user_row_def refreshToken_create_def Let_def)

text \<open>
  Claim C4, amended. A user whose status is \<open>BLOCKED\<close> or
  \<open>WAITING_EMAIL_CONFIRMATION\<close> is answered 403 before the password is looked at, with
  the store unchanged and no token issued, whatever the password. A login that is answered
  200 is that of a user whose status is \<open>ACTIVE\<close> or \<open>SUSPENDED\<close> and whose password
  matches; the store then has the counter at 0, \<open>lastLoginAt\<close> at the present, and one
  more refresh token row.
\<close>

theorem login_status_gate:
  "(loginSchema ev b = Some (e, p) \<and> findUser e d = Some u \<and> status u = BLOCKED
      \<longrightarrow> login ev now newId b d
           = ((403, ErrorBody ''Account is blocked due to too many failed login attempts''), d))
   \<and> (loginSchema ev b = Some (e, p) \<and> findUser e d = Some u
        \<and> status u = WAITING_EMAIL_CONFIRMATION
      \<longrightarrow> login ev now newId b d
           = ((403, ErrorBody ''Please confirm your email before logging in''), d))
   \<and> (fst (fst (login ev now newId b d)) = 200
      \<longrightarrow> (\<exists>e p u. loginSchema ev b = Some (e, p) \<and> findUser e d = Some u
             \<and> (status u = ACTIVE \<or> status u = SUSPENDED)
             \<and> comparePassword ev p (passwordHash u)
             \<and> snd (login ev now newId b d)
                 = (update_user_row (usrId u)
                      (\<lambda>r. r\<lparr> failedLoginAttempts := 0, lastLoginAt := Some now \<rparr>) d)
                   \<lparr> refreshTokens := refreshTokens d @
                       [\<lparr> rtId = newId, rtUserId = usrId u,
                          rtTokenHash = hashToken ev (generateRefreshToken ev now (usrId u) (email u)),
                          rtExpiresAt = now + 604800000, revokedAt = None \<rparr>] \<rparr>))"
proof (intro conjI impI)
  assume "loginSchema ev b = Some (e, p) \<and> findUser e d = Some u \<and> status u = BLOCKED"
  then show "login ev now newId b d
      = ((403, ErrorBody ''Account is blocked due to too many failed login attempts''), d)"
    by (simp add: login_def)
next
  assume "loginSchema ev b = Some (e, p) \<and> findUser e d = Some u
        \<and> status u = WAITING_EMAIL_CONFIRMATION"
  then show "login ev now newId b d
      = ((403, ErrorBody ''Please confirm your email before logging in''), d)"
    by (simp add: login_def)
next
  assume ok: "fst (fst (login ev now newId b d)) = 200"
  then obtain e p where s: "loginSchema ev b = Some (e, p)"
    by (cases "loginSchema ev b") (auto simp: login_def zod_error_def)
  from ok s obtain u where f: "findUser e d = Some u"
    by (cases "findUser e d") (auto simp: login_def)
  from ok s f have st: "status u \<noteq> BLOCKED" "status u \<noteq> WAITING_EMAIL_CONFIRMATION"
    by (auto simp: login_def split: if_splits)
  then have st': "status u = ACTIVE \<or> status u = SUSPENDED"
    by (cases "status u") simp_all
  from ok s f st have pw: "comparePassword ev p (passwordHash u)"
    by (auto simp: login_def Let_def split: if_splits)
  from ok s f st pw have "snd (login ev now newId b d)
                 = (update_user_row (usrId u)
                      (\<lambda>r. r\<lparr> failedLoginAttempts := 0, lastLoginAt := Some now \<rparr>) d)
                   \<lparr> refreshTokens := refreshTokens d @
                       [\<lparr> rtId = newId, rtUserId = usrId u,
                          rtTokenHash = hashToken ev (generateRefreshToken ev now (usrId u) (email u)),
                          rtExpiresAt = now + 604800000, revokedAt = None \<rparr>] \<rparr>"
    by (auto simp: login_def Let_def refreshToken_create_def update_user_row_def internal_error_def
        split: if_splits option.splits)
  with s f st' pw show "\<exists>e p u. loginSchema ev b = Some (e, p) \<and> findUser e d = Some u
             \<and> (status u = ACTIVE \<or> status u = SUSPENDED)
             \<and> comparePassword ev p (passwordHash u)
             \<and> snd (login ev now newId b d)
                 = (update_user_row (usrId u)
                      (\<lambda>r. r\<lparr> failedLoginAttempts := 0, lastLoginAt := Some now \<rparr>) d)
                   \<lparr> refreshTokens := refreshTokens d @
                       [\<lparr> rtId = newId, rtUserId = usrId u,
                          rtTokenHash = hashToken ev (generateRefreshToken ev now (usrId u) (email u)),
                          rtExpiresAt = now + 604800000, revokedAt = None \<rparr>] \<rparr>"
    by blast
qed

theorem login_status_gate_witness:
  "status bob = BLOCKED
   \<and> comparePassword sample_env ''Abc12345!'' (passwordHash bob)
   \<and> login sample_env sample_now ''r1'' (credentials ''bob@x.com'' ''Abc12345!'') sample_db
       = ((403, ErrorBody ''Account is blocked due to too many failed login attempts''), sample_db)
   \<and> status wendy = WAITING_EMAIL_CONFIRMATION
   \<and> comparePassword sample_env ''Abc12345!'' (passwordHash wendy)
   \<and> login sample_env sample_now ''r1'' (credentials ''wendy@x.com'' ''Abc12345!'') sample_db
       = ((403, ErrorBody ''Please confirm your email before logging in''), sample_db)"
proof -
  have s: "loginSchema sample_env (credentials ''bob@x.com'' ''Abc12345!'')
             = Some (''bob@x.com'', ''Abc12345!'')"
          "loginSchema sample_env (credentials ''wendy@x.com'' ''Abc12345!'')
             = Some (''wendy@x.com'', ''Abc12345!'')"
    by (simp_all add: sample_schema)
  have st: "status bob = BLOCKED" "status wendy = WAITING_EMAIL_CONFIRMATION"
    by (simp_all add: bob_def wendy_def)
  have pw: "comparePassword sample_env ''Abc12345!'' (passwordHash bob)"
           "comparePassword sample_env ''Abc12345!'' (passwordHash wendy)"
    by (simp_all add: sample_env_def bob_def wendy_def)
  from login_status_gate [where ev = sample_env and b = "credentials ''bob@x.com'' ''Abc12345!''"
      and e = "''bob@x.com''" and p = "''Abc12345!''" and d = sample_db and u = bob
      and now = sample_now and newId = "''r1''"]
    login_status_gate [where ev = sample_env and b = "credentials ''wendy@x.com'' ''Abc12345!''"
      and e = "''wendy@x.com''" and p = "''Abc12345!''" and d = sample_db and u = wendy
      and now = sample_now and newId = "''r1''"]
    s st pw sample_users
  show ?thesis by simp
qed

subsection \<open>Counting failed logins\<close>

lemma login_wrong_password:
  assumes "loginSchema ev b = Some (e, p)"
    and "findUser e d = Some u"
    and "status u \<noteq> BLOCKED"
    and "status u \<noteq> WAITING_EMAIL_CONFIRMATION"
    and "\<not> comparePassword ev p (passwordHash u)"
  shows "login ev now newId b d =
      ((if failedLoginAttempts u + 1 \<ge> 10
        then (403, ErrorBody ''Account blocked due to too many failed login attempts'')
        else (401, ErrorRemaining ''Invalid credentials'' (10 - (failedLoginAttempts u + 1)))),
       update_user_row (usrId u)
         (\<lambda>r. r\<lparr> failedLoginAttempts := failedLoginAttempts u + 1,
                  status := (if failedLoginAttempts u + 1 \<ge> 10 then BLOCKED else status u) \<rparr>) d)"
  using assms by (simp add: login_def Let_def)

lemma login_wrong_password_row:
  assumes "loginSchema ev b = Some (e, p)"
    and "findUser e d = Some u"
    and "status u \<noteq> BLOCKED"
    and "status u \<noteq> WAITING_EMAIL_CONFIRMATION"
    and "\<not> comparePassword ev p (passwordHash u)"
  shows "findUser e (snd (login ev now newId b d)) = Some (bump u)"
  by (simp add: login_wrong_password [OF assms] findUser_update_user_row assms(2) bump_def)

lemma login_blocked:
  assumes "loginSchema ev b = Some (e, p)" and "findUser e d = Some u" and "status u = BLOCKED"
  shows "login ev now newId b d
      = ((403, ErrorBody ''Account is blocked due to too many failed login attempts''), d)"
  using assms by (simp add: login_def)

lemma failed_attempt_cases:
  assumes "failed_attempt ev e h (now, newId, b)"
  obtains p where "loginSchema ev b = Some (e, p)" and "\<not> comparePassword ev p h"
  using assms by (auto simp: failed_attempt_def split: option.splits)

lemma login_attempts_row:
  assumes "findUser e d = Some u"
    and "status u \<noteq> BLOCKED"
    and "status u \<noteq> WAITING_EMAIL_CONFIRMATION"
    and "list_all (failed_attempt ev e (passwordHash u)) rs"
    and "failedLoginAttempts u + int (length rs) \<le> 10"
  shows "findUser e (login_attempts ev rs d)
         = Some (u\<lparr> failedLoginAttempts := failedLoginAttempts u + int (length rs),
                    status := (if rs \<noteq> [] \<and> failedLoginAttempts u + int (length rs) \<ge> 10
                               then BLOCKED else status u) \<rparr>)"
  using assms
proof (induction rs arbitrary: d u)
  case Nil
  then show ?case by simp
next
  case (Cons r rs)
  obtain now newId b where r: "r = (now, newId, b)"
    by (cases r) auto
  from Cons.prems(4) r obtain p where
    s: "loginSchema ev b = Some (e, p)" and w: "\<not> comparePassword ev p (passwordHash u)"
    by (auto elim: failed_attempt_cases)
  let ?d = "snd (login ev now newId b d)"
  have row: "findUser e ?d = Some (bump u)"
    by (rule login_wrong_password_row [OF s Cons.prems(1) Cons.prems(2) Cons.prems(3) w])
  show ?case
  proof (cases "rs = []")
    case True
    with row r show ?thesis by (simp add: bump_def)
  next
    case False
    then have "1 \<le> length rs" by (cases rs) simp_all
    with Cons.prems(5) have small: "failedLoginAttempts u + 1 < 10" by simp
    have b1: "status (bump u) \<noteq> BLOCKED" "status (bump u) \<noteq> WAITING_EMAIL_CONFIRMATION"
      using small Cons.prems(2,3) by (simp_all add: bump_def)
    have b2: "list_all (failed_attempt ev e (passwordHash (bump u))) rs"
      using Cons.prems(4) by (simp add: bump_def)
    have b3: "failedLoginAttempts (bump u) + int (length rs) \<le> 10"
      using Cons.prems(5) by (simp add: bump_def)
    from Cons.IH [OF row b1 b2 b3] False small r show ?thesis
      by (simp add: bump_def add.assoc)
  qed
qed

lemma take_attempts:
  assumes "list_all P rs"
  shows "list_all P (take n rs)"
  using assms by (auto simp: list_all_iff dest: in_set_takeD)

lemma ten_wrong_failed:
  "list_all (failed_attempt sample_env ''alice@x.com'' (passwordHash alice)) ten_wrong"
proof -
  have "failed_attempt sample_env ''alice@x.com'' (passwordHash alice)
          (sample_now, ''r0'', credentials ''alice@x.com'' ''guess'')"
    by (simp add: failed_attempt_def sample_schema) (simp add: sample_env_def alice_def)
  then show ?thesis
    by (simp add: ten_wrong_def list_all_iff)
qed

text \<open>
  Claim C5: a wrong password on an account that passes the status checks stores the counter
  plus one; when that value is 10 or more (the test of the handler) the status becomes
  \<open>BLOCKED\<close> and the answer is 403 Blocked, otherwise the answer is 401
  \<open>Invalid credentials\<close> with \<open>remainingAttempts\<close> equal to 10 minus the new
  counter. From a counter of 0, any ten failed attempts in a row leave the account
  \<open>BLOCKED\<close> with the counter at 10, no fewer do (after \<open>n < 10\<close> of them the row
  differs from the first one by its counter \<open>n\<close> only), and every further request for the
  account that passes the schema, with the right password too, is answered 403 Blocked and
  leaves the store as it is.
\<close>

theorem login_wrong_password_counts:
  "(loginSchema ev b = Some (e, p) \<and> findUser e d = Some u \<and> status u \<noteq> BLOCKED
      \<and> status u \<noteq> WAITING_EMAIL_CONFIRMATION \<and> \<not> comparePassword ev p (passwordHash u)
    \<longrightarrow> fst (login ev now newId b d)
          = (if failedLoginAttempts u + 1 \<ge> 10
             then (403, ErrorBody ''Account blocked due to too many failed login attempts'')
             else (401, ErrorRemaining ''Invalid credentials''
                          (10 - (failedLoginAttempts u + 1))))
       \<and> findUser e (snd (login ev now newId b d))
          = Some (u\<lparr> failedLoginAttempts := failedLoginAttempts u + 1,
                     status := (if failedLoginAttempts u + 1 \<ge> 10 then BLOCKED
                                else status u) \<rparr>))
   \<and> (findUser e d = Some u \<and> status u \<noteq> BLOCKED \<and> status u \<noteq> WAITING_EMAIL_CONFIRMATION
      \<and> failedLoginAttempts u = 0 \<and> length rs = 10
      \<and> list_all (failed_attempt ev e (passwordHash u)) rs
    \<longrightarrow> findUser e (login_attempts ev rs d)
          = Some (u\<lparr> failedLoginAttempts := 10, status := BLOCKED \<rparr>)
       \<and> (\<forall>n<10. findUser e (login_attempts ev (take n rs) d)
                    = Some (u\<lparr> failedLoginAttempts := int n \<rparr>))
       \<and> (\<forall>now' newId' b' p'. loginSchema ev b' = Some (e, p')
            \<longrightarrow> login ev now' newId' b' (login_attempts ev rs d)
                = ((403, ErrorBody ''Account is blocked due to too many failed login attempts''),
                   login_attempts ev rs d)))"
proof (intro conjI impI allI)
  assume a: "loginSchema ev b = Some (e, p) \<and> findUser e d = Some u \<and> status u \<noteq> BLOCKED
      \<and> status u \<noteq> WAITING_EMAIL_CONFIRMATION \<and> \<not> comparePassword ev p (passwordHash u)"
  then show "fst (login ev now newId b d)
          = (if failedLoginAttempts u + 1 \<ge> 10
             then (403, ErrorBody ''Account blocked due to too many failed login attempts'')
             else (401, ErrorRemaining ''Invalid credentials''
                          (10 - (failedLoginAttempts u + 1))))"
    by (simp add: login_wrong_password)
  from a show "findUser e (snd (login ev now newId b d))
          = Some (u\<lparr> failedLoginAttempts := failedLoginAttempts u + 1,
                     status := (if failedLoginAttempts u + 1 \<ge> 10 then BLOCKED
                                else status u) \<rparr>)"
    using login_wrong_password_row [of ev b e p d u now newId] by (simp add: bump_def)
next
  assume a: "findUser e d = Some u \<and> status u \<noteq> BLOCKED \<and> status u \<noteq> WAITING_EMAIL_CONFIRMATION
      \<and> failedLoginAttempts u = 0 \<and> length rs = 10
      \<and> list_all (failed_attempt ev e (passwordHash u)) rs"
  then have f: "findUser e d = Some u" and s1: "status u \<noteq> BLOCKED"
    and s2: "status u \<noteq> WAITING_EMAIL_CONFIRMATION" and z: "failedLoginAttempts u = 0"
    and l: "length rs = 10" and w: "list_all (failed_attempt ev e (passwordHash u)) rs"
    by simp_all
  have ne: "rs \<noteq> []" using l by auto
  show ten: "findUser e (login_attempts ev rs d)
          = Some (u\<lparr> failedLoginAttempts := 10, status := BLOCKED \<rparr>)"
    using login_attempts_row [OF f s1 s2 w] z l ne by simp
  {
    fix n :: nat
    assume n: "n < 10"
    have lt: "length (take n rs) = n" using n l by simp
    have "findUser e (login_attempts ev (take n rs) d)
        = Some (u\<lparr> failedLoginAttempts := failedLoginAttempts u + int (length (take n rs)),
                   status := (if take n rs \<noteq> [] \<and> failedLoginAttempts u + int (length (take n rs)) \<ge> 10
                               then BLOCKED else status u) \<rparr>)"
      by (rule login_attempts_row [OF f s1 s2 take_attempts [OF w]]) (use z lt n in linarith)
    then show "findUser e (login_attempts ev (take n rs) d)
                    = Some (u\<lparr> failedLoginAttempts := int n \<rparr>)"
      using n z lt by simp
  }
  {
    fix now' newId' b' p'
    assume "loginSchema ev b' = Some (e, p')"
    then show "login ev now' newId' b' (login_attempts ev rs d)
                = ((403, ErrorBody ''Account is blocked due to too many failed login attempts''),
                   login_attempts ev rs d)"
      by (rule login_blocked [OF _ ten]) simp
  }
qed

theorem login_wrong_password_counts_witness:
  "fst (login sample_env sample_now ''r1'' (credentials ''alice@x.com'' ''guess'') sample_db)
     = (401, ErrorRemaining ''Invalid credentials'' 9)
   \<and> findUser ''alice@x.com''
        (snd (login sample_env sample_now ''r1'' (credentials ''alice@x.com'' ''guess'') sample_db))
     = Some (alice\<lparr> failedLoginAttempts := 1 \<rparr>)
   \<and> length ten_wrong = 10
   \<and> findUser ''alice@x.com'' (login_attempts sample_env ten_wrong sample_db)
     = Some (alice\<lparr> failedLoginAttempts := 10, status := BLOCKED \<rparr>)
   \<and> comparePassword sample_env ''Abc12345!'' (passwordHash alice)
   \<and> fst (login sample_env sample_now ''r1'' (credentials ''alice@x.com'' ''Abc12345!'')
            (login_attempts sample_env ten_wrong sample_db))
     = (403, ErrorBody ''Account is blocked due to too many failed login attempts'')"
proof -
  have s: "loginSchema sample_env (credentials ''alice@x.com'' ''guess'')
             = Some (''alice@x.com'', ''guess'')"
          "loginSchema sample_env (credentials ''alice@x.com'' ''Abc12345!'')
             = Some (''alice@x.com'', ''Abc12345!'')"
    by (simp_all add: sample_schema)
  have st: "status alice \<noteq> BLOCKED" "status alice \<noteq> WAITING_EMAIL_CONFIRMATION"
           "failedLoginAttempts alice = 0"
    by (simp_all add: alice_def)
  have pw: "\<not> comparePassword sample_env ''guess'' (passwordHash alice)"
           "comparePassword sample_env ''Abc12345!'' (passwordHash alice)"
    by (simp_all add: sample_env_def alice_def)
  have l: "length ten_wrong = 10"
    by (simp add: ten_wrong_def)
  note t = login_wrong_password_counts [where ev = sample_env
      and b = "credentials ''alice@x.com'' ''guess''" and e = "''alice@x.com''"
      and p = "''guess''" and d = sample_db and u = alice and now = sample_now
      and newId = "''r1''" and rs = ten_wrong]
  from t s(1) st pw(1) sample_users(1)
  have one: "fst (login sample_env sample_now ''r1'' (credentials ''alice@x.com'' ''guess'') sample_db)
               = (401, ErrorRemaining ''Invalid credentials'' 9)"
            "findUser ''alice@x.com''
               (snd (login sample_env sample_now ''r1'' (credentials ''alice@x.com'' ''guess'') sample_db))
               = Some (alice\<lparr> failedLoginAttempts := 1 \<rparr>)"
    by simp_all
  from t st l ten_wrong_failed sample_users(1)
  have ten: "findUser ''alice@x.com'' (login_attempts sample_env ten_wrong sample_db)
               = Some (alice\<lparr> failedLoginAttempts := 10, status := BLOCKED \<rparr>)"
    and after: "\<forall>now' newId' b' p'. loginSchema sample_env b' = Some (''alice@x.com'', p')
            \<longrightarrow> login sample_env now' newId' b' (login_attempts sample_env ten_wrong sample_db)
                = ((403, ErrorBody ''Account is blocked due to too many failed login attempts''),
                   login_attempts sample_env ten_wrong sample_db)"
    by blast+
  from after s(2)
  have eleventh: "fst (login sample_env sample_now ''r1'' (credentials ''alice@x.com'' ''Abc12345!'')
            (login_attempts sample_env ten_wrong sample_db))
     = (403, ErrorBody ''Account is blocked due to too many failed login attempts'')"
    by simp
  from one l ten pw(2) eleventh show ?thesis by simp
qed

subsection \<open>Forgot password\<close>

text \<open>
  Claim C8: two forgot-password requests with syntactically valid addresses, one registered
  and one not, get the same response, 200 with the generic acknowledgement. For the
  registered address the store must accept the new token row (its key and its hash are
  fresh, as a 32-byte random token makes them); the requests may differ in every other
  respect. The witness shows where the two runs do differ: in the store and the message
  sent, not in the response.
\<close>

theorem forgot_password_same_response:
  assumes "b1 ''email'' = JStr e1" and "isEmail ev e1"
    and "b2 ''email'' = JStr e2" and "isEmail ev e2"
    and "findUser e1 d1 = Some u"
    and "findUser e2 d2 = None"
    and "newId1 \<notin> set (map tokId (emailTokens d1))"
    and "hashToken ev token1 \<notin> set (map tokenHash (emailTokens d1))"
  shows "fst (forgot_password ev now1 newId1 token1 b1 d1)
           = fst (forgot_password ev now2 newId2 token2 b2 d2)
    \<and> fst (forgot_password ev now1 newId1 token1 b1 d1)
           = (200, MessageBody ''If the email exists, a reset link has been sent.'')"
  using assms
  by (simp add: forgot_password_def forgotPasswordSchema_def emailToken_create_def)

theorem forgot_password_same_response_witness:
  "fst (forgot_password sample_env sample_now ''t3'' ''rnd''
          (no_keys(''email'' := JStr ''alice@x.com'')) sample_db)
     = fst (forgot_password sample_env sample_now ''t3'' ''rnd''
          (no_keys(''email'' := JStr ''nobody@x.com'')) sample_db)
   \<and> outbox (snd (forgot_password sample_env sample_now ''t3'' ''rnd''
          (no_keys(''email'' := JStr ''alice@x.com'')) sample_db))
     = [(''alice@x.com'', ''Reset your Schedula password'',
         ''http://localhost:5173/reset-password?token=rnd'')]
   \<and> snd (forgot_password sample_env sample_now ''t3'' ''rnd''
          (no_keys(''email'' := JStr ''nobody@x.com'')) sample_db) = sample_db"
proof -
  have e: "isEmail sample_env ''alice@x.com''" "isEmail sample_env ''nobody@x.com''"
    by (simp_all add: sample_env_def)
  have fresh: "''t3'' \<notin> set (map tokId (emailTokens sample_db))"
    "hashToken sample_env ''rnd'' \<notin> set (map tokenHash (emailTokens sample_db))"
    by (simp_all add: sample_db_def sample_env_def wendy_token_def stale_token_def)
  have same: "fst (forgot_password sample_env sample_now ''t3'' ''rnd''
          (no_keys(''email'' := JStr ''alice@x.com'')) sample_db)
     = fst (forgot_password sample_env sample_now ''t3'' ''rnd''
          (no_keys(''email'' := JStr ''nobody@x.com'')) sample_db)"
    using forgot_password_same_response [where ?b1.0 = "no_keys(''email'' := JStr ''alice@x.com'')"
      and ?e1.0 = "''alice@x.com''" and ev = sample_env
      and ?b2.0 = "no_keys(''email'' := JStr ''nobody@x.com'')" and ?e2.0 = "''nobody@x.com''"
      and ?d1.0 = sample_db and ?d2.0 = sample_db and u = alice and ?newId1.0 = "''t3''"
      and ?token1.0 = "''rnd''" and ?now1.0 = sample_now and ?now2.0 = sample_now
      and ?newId2.0 = "''t3''" and ?token2.0 = "''rnd''"]
      e fresh sample_users
    by simp
  have side: "outbox (snd (forgot_password sample_env sample_now ''t3'' ''rnd''
          (no_keys(''email'' := JStr ''alice@x.com'')) sample_db))
     = [(''alice@x.com'', ''Reset your Schedula password'',
         ''http://localhost:5173/reset-password?token=rnd'')]"
    using e fresh sample_users
    by (simp add: forgot_password_def forgotPasswordSchema_def emailToken_create_def
        sendPasswordReset_def alice_def) (simp add: sample_db_def)
  have none: "snd (forgot_password sample_env sample_now ''t3'' ''rnd''
          (no_keys(''email'' := JStr ''nobody@x.com'')) sample_db) = sample_db"
    using e sample_users by (simp add: forgot_password_def forgotPasswordSchema_def)
  from same side none show ?thesis by simp
qed

section \<open>Properties of the password rule\<close>

lemma isLetter_unat:
  "isLetter u \<longleftrightarrow> (97 \<le> unat u \<and> unat u \<le> 122) \<or> (65 \<le> unat u \<and> unat u \<le> 90)"
  by (simp add: isLetter_def code_def word_le_nat_alt)

lemma letters_unat: "u \<in> set (map code letters) \<longleftrightarrow> unat u \<in> set (map of_char letters)"
  by (simp add: letters_def code_def word_unat_eq_iff)

lemma isLetter_iff: "isLetter u \<longleftrightarrow> u \<in> set (map code letters)"
  unfolding isLetter_unat letters_unat
  by (simp add: letters_def) arith

lemma isNumber_unat: "isNumber u \<longleftrightarrow> 48 \<le> unat u \<and> unat u \<le> 57"
  by (simp add: isNumber_def code_def word_le_nat_alt)

lemma digits_unat: "u \<in> set (map code digits) \<longleftrightarrow> unat u \<in> set (map of_char digits)"
  by (simp add: digits_def code_def word_unat_eq_iff)

lemma isNumber_iff: "isNumber u \<longleftrightarrow> u \<in> set (map code digits)"
  unfolding isNumber_unat digits_unat
  by (simp add: digits_def) arith

lemma regex_test_class:
  assumes "\<And>u. cls u \<longleftrightarrow> u \<in> set (map code cs)"
  shows "regex_test cls p \<longleftrightarrow> contains_one_of cs p"
  unfolding regex_test_def contains_one_of_def list_ex_iff
  using assms by auto

lemma hasLetter_iff: "regex_test isLetter p \<longleftrightarrow> contains_one_of letters p"
  by (rule regex_test_class) (rule isLetter_iff)

lemma hasNumber_iff: "regex_test isNumber p \<longleftrightarrow> contains_one_of digits p"
  by (rule regex_test_class) (rule isNumber_iff)

lemma hasSymbol_iff: "regex_test isSymbol p \<longleftrightarrow> contains_one_of symbols p"
  by (rule regex_test_class) (simp add: isSymbol_def)

text \<open>
  Claim C7: for every password \<open>p\<close>, \<open>validatePasswordStrength p\<close> is valid exactly
  when \<open>p\<close> has at least 8 code units and contains a letter, a digit and a symbol of the
  punctuation set; and its error is the message of the first rule that fails, in the order
  length, letter, digit, symbol (none when all hold).
\<close>

theorem validatePasswordStrength_iff:
  "valid (validatePasswordStrength p)
     = (8 \<le> length p \<and> contains_one_of letters p \<and> contains_one_of digits p
        \<and> contains_one_of symbols p)
   \<and> error (validatePasswordStrength p) = first_failing_rule p"
  by (simp add: validatePasswordStrength_def hasLetter_iff hasNumber_iff hasSymbol_iff
      first_failing_rule_def strength_rules_def Let_def)

lemma strength_examples:
  "validatePasswordStrength (js ''Abc12345!'') = \<lparr> valid = True, error = None \<rparr>"
  "validatePasswordStrength (js ''Abc123!'')
     = \<lparr> valid = False, error = Some ''Password must be at least 8 characters long'' \<rparr>"
  "validatePasswordStrength (js ''12345678'')
     = \<lparr> valid = False, error = Some ''Password must include at least one letter'' \<rparr>"
  "validatePasswordStrength (js ''Abcdefgh!'')
     = \<lparr> valid = False, error = Some ''Password must include at least one number'' \<rparr>"
  "validatePasswordStrength (js ''Abc12345 '')
     = \<lparr> valid = False, error = Some ''Password must include at least one symbol'' \<rparr>"
  by (simp_all add: validatePasswordStrength_def js_def code_def regex_test_def isLetter_def
      isNumber_def isSymbol_def symbols_def)

end
